theory Spec2Isabelle
  imports Main
begin

unbundle bit_operations_syntax

section \<open>Values shared by the whole package\<close>

text \<open>
  An \<open>io.Writer\<close> handed to the package is modelled as the number of the sink it
  writes to. Numbers 1 and 2 are the process's standard output and standard error.
  A nil writer is not a value of this type.
\<close>

type_synonym handle = nat

definition os_Stdout :: handle where
  "os_Stdout = 1"

definition os_Stderr :: handle where
  "os_Stderr = 2"

text \<open>
  A sink keeps the bytes written to it, the number of \<open>Close\<close> calls it has received,
  the error its \<open>Close\<close> method returns (\<open>None\<close> for nil) and the text that the
  verb \<open>%v\<close> prints for it.
\<close>

record sink =
  written :: string
  close_calls :: nat
  close_error :: "string option"
  shown :: string

text \<open>Every call that leaves the process is recorded, in the order it is issued.\<close>

datatype event =
    EvWrite handle string
  | EvClose handle
  | EvOpen string nat nat

text \<open>
  A call returns, panics or ends the process with an exit status. \<open>Blocked\<close> is a
  call that waits for ever on the mutex.
\<close>

datatype panic = NilDereference | PanicValue string

datatype 'a outcome = Returned 'a | Panicked panic | Exited int | Blocked

section \<open>The part of Go's standard library that the package calls\<close>

text \<open>The flag bits of package \<open>log\<close>.\<close>

definition Ldate :: nat where "Ldate = 1"
definition Ltime :: nat where "Ltime = 2"
definition Lmicroseconds :: nat where "Lmicroseconds = 4"
definition Llongfile :: nat where "Llongfile = 8"
definition Lshortfile :: nat where "Lshortfile = 16"
definition LstdFlags :: nat where "LstdFlags = Ldate OR Ltime"

text \<open>\<open>log.Logger\<close>: destination, prefix and flags. \<open>log.New\<close> fills the three fields.\<close>

record log_Logger =
  out :: handle
  prefix :: string
  flag :: nat

definition log_New :: "handle \<Rightarrow> string \<Rightarrow> nat \<Rightarrow> log_Logger" where
  "log_New w p f = \<lparr>out = w, prefix = p, flag = f\<rparr>"

text \<open>The wall clock as \<open>time.Now\<close> reports it, already split into date and clock.\<close>

record go_time =
  year :: nat
  month :: nat
  day :: nat
  hour :: nat
  minute :: nat
  second :: nat

text \<open>
  What a call reads from its surroundings: the clock, the call stack as
  \<open>runtime.Caller\<close> sees it from inside \<open>log.Logger.Output\<close> (frame \<open>k\<close> is \<open>k\<close>
  calls above \<open>Output\<close>), the dump \<open>debug.Stack\<close> returns, the two formatters of
  package \<open>fmt\<close> over the caller's argument values, and \<open>os.OpenFile\<close>, which gives
  either an error text or the handle of the opened file.
\<close>

record 'v env =
  now :: go_time
  caller :: "nat \<Rightarrow> (string \<times> nat) option"
  stack :: string
  Sprint :: "'v list \<Rightarrow> string"
  Sprintf :: "string \<Rightarrow> 'v list \<Rightarrow> string"
  OpenFile :: "string \<Rightarrow> nat \<Rightarrow> nat \<Rightarrow> string + handle"

definition newline :: char where
  "newline = CHR 0x0A"

definition digit :: "nat \<Rightarrow> char" where
  "digit d = char_of (of_char (CHR ''0'') + d)"

text \<open>
  \<open>itoa\<close> of package \<open>log\<close>: decimal digits of a non-negative number, padded with
  zeros on the left to width \<open>wid\<close>. The loop runs while \<open>i >= 10 || wid > 1\<close>.
\<close>

function itoa :: "nat \<Rightarrow> int \<Rightarrow> string" where
  "itoa i wid =
     (if i \<ge> 10 \<or> wid > 1 then itoa (i div 10) (wid - 1) @ [digit (i mod 10)]
      else [digit i])"
  by pat_completeness auto
termination
  by (relation "measure (\<lambda>(i, wid). i + nat wid)") auto

declare itoa.simps [simp del]

text \<open>The default rendering of an integer by package \<open>fmt\<close>.\<close>

definition show_int :: "int \<Rightarrow> string" where
  "show_int i = (if i < 0 then ''-'' @ itoa (nat (- i)) 0 else itoa (nat i) 0)"

text \<open>
  The \<open>Lshortfile\<close> loop of \<open>formatHeader\<close>: from the last index down to 1, the first
  slash found cuts the path; index 0 is not looked at.
\<close>

fun shortfile_from :: "nat \<Rightarrow> string \<Rightarrow> string" where
  "shortfile_from 0 file = file"
| "shortfile_from (Suc i) file =
     (if file ! Suc i = CHR ''/'' then drop (Suc i + 1) file else shortfile_from i file)"

definition shortfile :: "string \<Rightarrow> string" where
  "shortfile file = shortfile_from (length file - 1) file"

text \<open>
  \<open>formatHeader\<close>: the prefix, then the date and the clock time when their flags are
  set, then file and line when a file flag is set. Microseconds are left out: no
  logger of this package sets that flag.
\<close>

definition format_date :: "go_time \<Rightarrow> string" where
  "format_date t = itoa (year t) 4 @ ''/'' @ itoa (month t) 2 @ ''/'' @ itoa (day t) 2 @ '' ''"

definition format_clock :: "go_time \<Rightarrow> string" where
  "format_clock t = itoa (hour t) 2 @ '':'' @ itoa (minute t) 2 @ '':'' @ itoa (second t) 2 @ '' ''"

definition format_file :: "nat \<Rightarrow> string \<Rightarrow> nat \<Rightarrow> string" where
  "format_file f file line =
     (if f AND Lshortfile \<noteq> 0 then shortfile file else file) @ '':'' @ itoa line (- 1) @ '': ''"

definition formatHeader :: "log_Logger \<Rightarrow> go_time \<Rightarrow> string \<Rightarrow> nat \<Rightarrow> string" where
  "formatHeader l t file line =
     prefix l
     @ (if flag l AND Ldate \<noteq> 0 then format_date t else [])
     @ (if flag l AND Ltime \<noteq> 0 then format_clock t else [])
     @ (if flag l AND (Lshortfile OR Llongfile) \<noteq> 0 then format_file (flag l) file line else [])"

text \<open>\<open>fmt.Sprintln\<close> over operands already rendered: a space between any two, a newline last.\<close>

fun join_spaces :: "string list \<Rightarrow> string" where
  "join_spaces [] = []"
| "join_spaces [x] = x"
| "join_spaces (x # y # ys) = x @ '' '' @ join_spaces (y # ys)"

definition fmt_Sprintln :: "string list \<Rightarrow> string" where
  "fmt_Sprintln xs = join_spaces xs @ [newline]"

text \<open>The flags and the permission bits of \<open>os.OpenFile\<close> (Linux values; 0666 is octal).\<close>

definition O_WRONLY :: nat where "O_WRONLY = 0x1"
definition O_CREATE :: nat where "O_CREATE = 0x40"
definition O_APPEND :: nat where "O_APPEND = 0x400"
definition O_ACCMODE :: nat where "O_ACCMODE = 0x3"
definition perm_0666 :: nat where "perm_0666 = 6 * 64 + 6 * 8 + 6"

section \<open>The package's own types and state\<close>

type_synonym severity = int

definition sInfo :: severity where "sInfo = 0"
definition sWarning :: severity where "sWarning = 1"
definition sError :: severity where "sError = 2"
definition sFatal :: severity where "sFatal = 3"

definition flags :: nat where
  "flags = Ldate OR Ltime OR Lshortfile"

text \<open>The four \<open>*log.Logger\<close> fields are pointers: \<open>None\<close> is nil.\<close>

record Logger =
  infoLog :: "log_Logger option"
  warningLog :: "log_Logger option"
  errorLog :: "log_Logger option"
  fatalLog :: "log_Logger option"
  closers :: "handle list"
  initialized :: bool

text \<open>
  The state of the process: the two package variables \<open>logLock\<close> (held or free) and
  \<open>defaultLogger\<close> (\<open>None\<close> is nil), the sinks, and the calls issued so far.
\<close>

record world =
  logLock :: bool
  defaultLogger :: "Logger option"
  sinks :: "handle \<Rightarrow> sink"
  trace :: "event list"

definition sink_Write :: "handle \<Rightarrow> string \<Rightarrow> world \<Rightarrow> world" where
  "sink_Write h buf w =
     w\<lparr>sinks := (sinks w)(h := (sinks w h)\<lparr>written := written (sinks w h) @ buf\<rparr>),
       trace := trace w @ [EvWrite h buf]\<rparr>"

definition sink_Close :: "handle \<Rightarrow> world \<Rightarrow> string option \<times> world" where
  "sink_Close h w =
     (close_error (sinks w h),
      w\<lparr>sinks := (sinks w)(h := (sinks w h)\<lparr>close_calls := Suc (close_calls (sinks w h))\<rparr>),
        trace := trace w @ [EvClose h]\<rparr>)"

text \<open>
  \<open>log.Logger.Output\<close>: the caller's position is looked up when a file flag is set
  (\<open>???\<close> and 0 when there is no such frame); the header, the text and, unless the
  text already ends with one, a newline go to the destination in one write. The
  error of the write is dropped by every caller in this package.
\<close>

definition log_buf :: "'v env \<Rightarrow> log_Logger \<Rightarrow> nat \<Rightarrow> string \<Rightarrow> string" where
  "log_buf e l calldepth s =
     (let (file, line) =
            (if flag l AND (Lshortfile OR Llongfile) \<noteq> 0
             then (case caller e calldepth of Some (f, n) \<Rightarrow> (f, n) | None \<Rightarrow> (''???'', 0))
             else ([], 0))
      in formatHeader l (now e) file line @ s
         @ (if length s = 0 \<or> last s \<noteq> newline then [newline] else []))"

definition log_Output :: "'v env \<Rightarrow> log_Logger \<Rightarrow> nat \<Rightarrow> string \<Rightarrow> world \<Rightarrow> world" where
  "log_Output e l calldepth s w = sink_Write (out l) (log_buf e l calldepth s) w"

text \<open>\<open>log.Fatalln\<close>: one line through the standard logger, then \<open>os.Exit(1)\<close>.\<close>

definition log_std :: log_Logger where
  "log_std = log_New os_Stderr [] LstdFlags"

definition log_Fatalln :: "'v env \<Rightarrow> string list \<Rightarrow> world \<Rightarrow> 'a outcome \<times> world" where
  "log_Fatalln e v w = (Exited 1, log_Output e log_std 2 (fmt_Sprintln v) w)"

section \<open>The logger\<close>

text \<open>
  \<open>Logger.output\<close>. The receiver may be nil; it is dereferenced only inside the
  branch of a known severity. The deferred unlock runs on return and on panic.
\<close>

definition output_to ::
  "'v env \<Rightarrow> Logger option \<Rightarrow> (Logger \<Rightarrow> log_Logger option) \<Rightarrow> nat \<Rightarrow> string \<Rightarrow> world
     \<Rightarrow> unit outcome \<times> world" where
  "output_to e l field depth txt w =
     (case l of
        None \<Rightarrow> (Panicked NilDereference, w)
      | Some lg \<Rightarrow>
          (case field lg of
             None \<Rightarrow> (Panicked NilDereference, w)
           | Some sl \<Rightarrow> (Returned (), log_Output e sl (3 + depth) txt w)))"

definition Logger_output ::
  "'v env \<Rightarrow> Logger option \<Rightarrow> severity \<Rightarrow> nat \<Rightarrow> string \<Rightarrow> world \<Rightarrow> unit outcome \<times> world" where
  "Logger_output e l s depth txt w =
     (if logLock w then (Blocked, w)
      else
        let w1 = w\<lparr>logLock := True\<rparr>;
            (r, w2) =
              (if s = sInfo then output_to e l infoLog depth txt w1
               else if s = sWarning then output_to e l warningLog depth txt w1
               else if s = sError then output_to e l errorLog depth txt w1
               else if s = sFatal then output_to e l fatalLog depth txt w1
               else (Panicked (PanicValue (fmt_Sprintln [''unrecognized severity: '', show_int s])), w1))
        in (r, w2\<lparr>logLock := False\<rparr>))"

text \<open>
  \<open>Logger.Close\<close>: the body of the loop closes one closer and reports a failure on
  standard error; the loop runs over \<open>l.closers\<close> from the first to the last.
\<close>

definition close_one :: "handle \<Rightarrow> world \<Rightarrow> world" where
  "close_one c w =
     (case sink_Close c w of
        (None, w1) \<Rightarrow> w1
      | (Some err, w1) \<Rightarrow>
          sink_Write os_Stderr
            (''Failed to close log '' @ shown (sinks w1 c) @ '': '' @ err @ [newline]) w1)"

fun close_all :: "handle list \<Rightarrow> world \<Rightarrow> world" where
  "close_all [] w = w"
| "close_all (c # cs) w = close_all cs (close_one c w)"

definition Close :: "Logger option \<Rightarrow> world \<Rightarrow> unit outcome \<times> world" where
  "Close l w =
     (if logLock w then (Blocked, w)
      else
        (case l of
           None \<Rightarrow> (Panicked NilDereference, w)
         | Some lg \<Rightarrow> (Returned (), (close_all (closers lg) (w\<lparr>logLock := True\<rparr>))\<lparr>logLock := False\<rparr>)))"

definition Init :: "handle \<Rightarrow> handle \<Rightarrow> handle \<Rightarrow> handle \<Rightarrow> world \<Rightarrow> unit outcome \<times> world" where
  "Init infoHandle warningHandle errorHandle fatalHandle w =
     (Returned (),
      w\<lparr>defaultLogger := Some
          \<lparr>infoLog = Some (log_New infoHandle ''INFO: '' flags),
           warningLog = Some (log_New warningHandle ''WARNING: '' flags),
           errorLog = Some (log_New errorHandle ''ERROR: '' flags),
           fatalLog = Some (log_New fatalHandle ''FATAL: '' flags),
           closers = [],
           initialized = False\<rparr>\<rparr>)"

definition Info :: "'v env \<Rightarrow> 'v list \<Rightarrow> world \<Rightarrow> unit outcome \<times> world" where
  "Info e v w = Logger_output e (defaultLogger w) sInfo 0 (Sprint e v) w"

definition Infof :: "'v env \<Rightarrow> string \<Rightarrow> 'v list \<Rightarrow> world \<Rightarrow> unit outcome \<times> world" where
  "Infof e format v w = Logger_output e (defaultLogger w) sInfo 0 (Sprintf e format v) w"

definition Warning :: "'v env \<Rightarrow> 'v list \<Rightarrow> world \<Rightarrow> unit outcome \<times> world" where
  "Warning e v w = Logger_output e (defaultLogger w) sWarning 0 (Sprint e v) w"

definition Warningf :: "'v env \<Rightarrow> string \<Rightarrow> 'v list \<Rightarrow> world \<Rightarrow> unit outcome \<times> world" where
  "Warningf e format v w = Logger_output e (defaultLogger w) sWarning 0 (Sprintf e format v) w"

definition Error :: "'v env \<Rightarrow> 'v list \<Rightarrow> world \<Rightarrow> unit outcome \<times> world" where
  "Error e v w = Logger_output e (defaultLogger w) sError 0 (Sprint e v) w"

definition Errorf :: "'v env \<Rightarrow> string \<Rightarrow> 'v list \<Rightarrow> world \<Rightarrow> unit outcome \<times> world" where
  "Errorf e format v w = Logger_output e (defaultLogger w) sError 0 (Sprintf e format v) w"

text \<open>
  \<open>Fatal\<close> and \<open>Fatalf\<close>: the two calls before \<open>os.Exit(1)\<close> are reached one after
  the other only when the one before has returned.
\<close>

definition fatal_tail :: "unit outcome \<times> world \<Rightarrow> unit outcome \<times> world" where
  "fatal_tail rw =
     (case rw of
        (Returned u, w1) \<Rightarrow>
          (case Close (defaultLogger w1) w1 of
             (Returned u', w2) \<Rightarrow> (Exited 1, w2)
           | (r, w2) \<Rightarrow> (r, w2))
      | (r, w1) \<Rightarrow> (r, w1))"

definition Fatal :: "'v env \<Rightarrow> 'v list \<Rightarrow> world \<Rightarrow> unit outcome \<times> world" where
  "Fatal e v w = fatal_tail (Logger_output e (defaultLogger w) sFatal 0 (Sprint e v) w)"

definition Fatalf :: "'v env \<Rightarrow> string \<Rightarrow> 'v list \<Rightarrow> world \<Rightarrow> unit outcome \<times> world" where
  "Fatalf e format v w = fatal_tail (Logger_output e (defaultLogger w) sFatal 0 (Sprintf e format v) w)"

text \<open>
  \<open>FileForSaving\<close>. On failure the file pointer is nil, which \<open>log.Fatalln\<close> prints
  as \<open><nil>\<close>.
\<close>

definition FileForSaving :: "'v env \<Rightarrow> string \<Rightarrow> world \<Rightarrow> handle outcome \<times> world" where
  "FileForSaving e fileName w =
     (let flg = O_CREATE OR O_WRONLY OR O_APPEND;
          w1 = w\<lparr>trace := trace w @ [EvOpen fileName flg perm_0666]\<rparr>
      in case OpenFile e fileName flg perm_0666 of
           Inl err \<Rightarrow> log_Fatalln e [''Failed to open log file'', ''<nil>'', '':'', err] w1
         | Inr file \<Rightarrow> (Returned file, w1))"

section \<open>Error wrapping\<close>

record CustomError =
  Message :: string
  StackTrace :: string

record ErrorStruct =
  CustomError :: CustomError

definition WrapError :: "'v env \<Rightarrow> string \<Rightarrow> CustomError" where
  "WrapError e messagef = \<lparr>Message = messagef, StackTrace = stack e\<rparr>"

definition CustomError_Error :: "CustomError \<Rightarrow> string" where
  "CustomError_Error err = Message err"

text \<open>
  A value of interface type \<open>error\<close> is nil (\<open>None\<close>) or one of: an error that is only
  a text, a \<open>CustomError\<close>, an \<open>ErrorStruct\<close>. \<open>ErrorStruct\<close> has the method \<open>Error\<close>
  of the struct it embeds.
\<close>

datatype error_value =
    ErrorString string
  | ErrCustom CustomError
  | ErrStruct ErrorStruct

fun error_Error :: "error_value \<Rightarrow> string" where
  "error_Error (ErrorString s) = s"
| "error_Error (ErrCustom c) = CustomError_Error c"
| "error_Error (ErrStruct x) = CustomError_Error (CustomError x)"

definition Return :: "'v env \<Rightarrow> error_value option \<Rightarrow> error_value option outcome" where
  "Return e err =
     (case err of
        None \<Rightarrow> Panicked NilDereference
      | Some x \<Rightarrow> Returned (Some (ErrStruct \<lparr>CustomError = WrapError e (error_Error x)\<rparr>)))"

section \<open>Calls from outside the package\<close>

text \<open>
  Everything the package exports, as one type of calls. \<open>Close\<close> is a method: its
  receiver is whatever pointer the caller holds. The value a call returns is dropped
  here; what is kept is how it ended.
\<close>

datatype 'v call =
    CallInit handle handle handle handle
  | CallInfo "'v list"
  | CallInfof string "'v list"
  | CallWarning "'v list"
  | CallWarningf string "'v list"
  | CallError "'v list"
  | CallErrorf string "'v list"
  | CallFatal "'v list"
  | CallFatalf string "'v list"
  | CallClose "Logger option"
  | CallFileForSaving string
  | CallWrapError string
  | CallReturn "error_value option"

fun ending :: "'a outcome \<Rightarrow> unit outcome" where
  "ending (Returned x) = Returned ()"
| "ending (Panicked p) = Panicked p"
| "ending (Exited n) = Exited n"
| "ending Blocked = Blocked"

fun run_call :: "'v env \<Rightarrow> 'v call \<Rightarrow> world \<Rightarrow> unit outcome \<times> world" where
  "run_call e (CallInit a b c d) w = Init a b c d w"
| "run_call e (CallInfo v) w = Info e v w"
| "run_call e (CallInfof f v) w = Infof e f v w"
| "run_call e (CallWarning v) w = Warning e v w"
| "run_call e (CallWarningf f v) w = Warningf e f v w"
| "run_call e (CallError v) w = Error e v w"
| "run_call e (CallErrorf f v) w = Errorf e f v w"
| "run_call e (CallFatal v) w = Fatal e v w"
| "run_call e (CallFatalf f v) w = Fatalf e f v w"
| "run_call e (CallClose l) w = Close l w"
| "run_call e (CallFileForSaving n) w =
     (case FileForSaving e n w of (r, w1) \<Rightarrow> (ending r, w1))"
| "run_call e (CallWrapError m) w = (ending (Returned (WrapError e m)), w)"
| "run_call e (CallReturn x) w = (ending (Return e x), w)"

text \<open>
  A program is a list of calls, each with the surroundings it runs in. A panic may be
  recovered by the caller, so the run goes on after it; it stops when the process has
  exited or waits for ever.
\<close>

fun run_calls :: "('v env \<times> 'v call) list \<Rightarrow> world \<Rightarrow> unit outcome \<times> world" where
  "run_calls [] w = (Returned (), w)"
| "run_calls ((e, c) # cs) w =
     (case run_call e c w of
        (Exited n, w1) \<Rightarrow> (Exited n, w1)
      | (Blocked, w1) \<Rightarrow> (Blocked, w1)
      | (r, w1) \<Rightarrow> (if cs = [] then (r, w1) else run_calls cs w1))"


section \<open>A process to run the package in\<close>

definition blank_sink :: sink where
  "blank_sink = \<lparr>written = [], close_calls = 0, close_error = None, shown = []\<rparr>"

text \<open>The process before any call: the lock is free and \<open>defaultLogger\<close> is nil.\<close>

definition start :: world where
  "start = \<lparr>logLock = False, defaultLogger = None, sinks = (\<lambda>h. blank_sink), trace = []\<rparr>"

definition sample_env :: "string env" where
  "sample_env =
     \<lparr>now = \<lparr>year = 2024, month = 3, day = 9, hour = 7, minute = 5, second = 42\<rparr>,
      caller = (\<lambda>k. if k = 3 then Some (''/srv/app/main.go'', 17) else None),
      stack = ''goroutine 1 [running]:'',
      Sprint = concat,
      Sprintf = (\<lambda>format v. format @ concat v),
      OpenFile = (\<lambda>name flg perm.
         if name = [] then Inl ''open : no such file or directory'' else Inr 7)\<rparr>"


section \<open>The line of the specification\<close>





definition initialised :: "handle \<Rightarrow> handle \<Rightarrow> handle \<Rightarrow> handle \<Rightarrow> world \<Rightarrow> world" where
  "initialised hi hw he hf w = snd (Init hi hw he hf w)"

text \<open>The process state with the flag of the default logger, if there is one, set to \<open>b\<close>.\<close>

definition with_initialized :: "bool \<Rightarrow> world \<Rightarrow> world" where
  "with_initialized b w =
     w\<lparr>defaultLogger := map_option (\<lambda>l. l\<lparr>initialized := b\<rparr>) (defaultLogger w)\<rparr>"

definition flag_clear :: "world \<Rightarrow> bool" where
  "flag_clear w = (case defaultLogger w of None \<Rightarrow> True | Some l \<Rightarrow> \<not> initialized l)"

section \<open>How the operations act on the process state\<close>

lemma unlock_free: "\<not> logLock w \<Longrightarrow> w\<lparr>logLock := False\<rparr> = w"
  by (cases w) simp

lemma sink_Write_lock: "sink_Write h b (w\<lparr>logLock := x\<rparr>) = (sink_Write h b w)\<lparr>logLock := x\<rparr>"
  by (simp add: sink_Write_def)

lemma sink_Write_fields:
  "logLock (sink_Write h b w) = logLock w"
  "defaultLogger (sink_Write h b w) = defaultLogger w"
  "trace (sink_Write h b w) = trace w @ [EvWrite h b]"
  "written (sinks (sink_Write h b w) h) = written (sinks w h) @ b"
  "close_calls (sinks (sink_Write h b w) h') = close_calls (sinks w h')"
  by (simp_all add: sink_Write_def)

lemma sink_Close_lock:
  "sink_Close c (w\<lparr>logLock := x\<rparr>) = (fst (sink_Close c w), (snd (sink_Close c w))\<lparr>logLock := x\<rparr>)"
  by (simp add: sink_Close_def)

lemma log_Output_lock: "log_Output e l d s (w\<lparr>logLock := x\<rparr>) = (log_Output e l d s w)\<lparr>logLock := x\<rparr>"
  by (simp add: log_Output_def sink_Write_lock)

lemma log_Output_fields:
  "logLock (log_Output e l d s w) = logLock w"
  "defaultLogger (log_Output e l d s w) = defaultLogger w"
  by (simp_all add: log_Output_def sink_Write_fields)

lemma close_one_lock: "close_one c (w\<lparr>logLock := x\<rparr>) = (close_one c w)\<lparr>logLock := x\<rparr>"
  by (simp add: close_one_def sink_Close_def sink_Write_def split: option.splits)

lemma close_one_fields:
  "logLock (close_one c w) = logLock w"
  "defaultLogger (close_one c w) = defaultLogger w"
  by (simp_all add: close_one_def sink_Close_def sink_Write_def split: option.splits)

lemma close_all_lock: "close_all cs (w\<lparr>logLock := x\<rparr>) = (close_all cs w)\<lparr>logLock := x\<rparr>"
  by (induction cs arbitrary: w) (simp_all add: close_one_lock)

lemma close_all_fields:
  "logLock (close_all cs w) = logLock w"
  "defaultLogger (close_all cs w) = defaultLogger w"
  by (induction cs arbitrary: w) (simp_all add: close_one_fields)

lemma output_to_lock:
  "output_to e l field d txt (w\<lparr>logLock := x\<rparr>)
     = (fst (output_to e l field d txt w), (snd (output_to e l field d txt w))\<lparr>logLock := x\<rparr>)"
  by (simp add: output_to_def log_Output_lock split: option.splits)

lemma output_to_fields:
  "logLock (snd (output_to e l field d txt w)) = logLock w"
  "defaultLogger (snd (output_to e l field d txt w)) = defaultLogger w"
  by (simp_all add: output_to_def log_Output_fields split: option.splits)

lemma relock: "\<not> logLock w \<Longrightarrow> logLock w' = logLock w \<Longrightarrow> w'\<lparr>logLock := True\<rparr>\<lparr>logLock := False\<rparr> = w'"
  by (cases w') simp

lemma Logger_output_free:
  assumes "\<not> logLock w"
  shows "Logger_output e l s d txt w =
     (if s = sInfo then output_to e l infoLog d txt w
      else if s = sWarning then output_to e l warningLog d txt w
      else if s = sError then output_to e l errorLog d txt w
      else if s = sFatal then output_to e l fatalLog d txt w
      else (Panicked (PanicValue (fmt_Sprintln [''unrecognized severity: '', show_int s])), w))"
  using assms
  by (simp add: Logger_output_def Let_def output_to_lock relock output_to_fields unlock_free
        split: prod.splits)

lemma Close_free:
  assumes "\<not> logLock w"
  shows "Close l w = (case l of None \<Rightarrow> (Panicked NilDereference, w)
                      | Some lg \<Rightarrow> (Returned (), close_all (closers lg) w))"
  using assms
  by (simp add: Close_def close_all_lock relock close_all_fields split: option.splits)

lemma output_to_Some:
  "l = Some lg \<Longrightarrow> field lg = Some sl \<Longrightarrow>
   output_to e l field d txt w = (Returned (), log_Output e sl (3 + d) txt w)"
  by (simp add: output_to_def)

lemma output_to_nil: "output_to e None field d txt w = (Panicked NilDereference, w)"
  by (simp add: output_to_def)

lemma severities_distinct:
  "sInfo \<noteq> sWarning" "sInfo \<noteq> sError" "sInfo \<noteq> sFatal"
  "sWarning \<noteq> sError" "sWarning \<noteq> sFatal" "sError \<noteq> sFatal"
  "sWarning \<noteq> sInfo" "sError \<noteq> sInfo" "sFatal \<noteq> sInfo"
  "sError \<noteq> sWarning" "sFatal \<noteq> sWarning" "sFatal \<noteq> sError"
  by (simp_all add: sInfo_def sWarning_def sError_def sFatal_def)





section \<open>Error wrapping: the claims\<close>

text \<open>
  Claim C5. For every message, the value \<open>WrapError\<close> returns gives back exactly that
  message from its method \<open>Error\<close>; the stack trace is kept in the field \<open>StackTrace\<close>,
  apart from the message.
\<close>

theorem WrapError_Error_is_message:
  "CustomError_Error (WrapError e msg) = msg
   \<and> Message (WrapError e msg) = msg
   \<and> StackTrace (WrapError e msg) = stack e"
  by (simp add: CustomError_Error_def WrapError_def)

text \<open>
  Claim C6. For every error value \<open>x\<close>, \<open>Return\<close> gives a new error value whose
  message is the message of \<open>x\<close> and whose stack trace is the one captured by this call,
  whatever trace \<open>x\<close> may carry itself.
\<close>

theorem Return_keeps_message_fresh_trace:
  "\<exists>r. Return e (Some x) = Returned (Some (ErrStruct r))
       \<and> error_Error (ErrStruct r) = error_Error x
       \<and> StackTrace (CustomError r) = stack e"
  by (simp add: Return_def WrapError_def CustomError_Error_def)

section \<open>The dispatch on the severity\<close>

lemma output_to_no_value: "fst (output_to e l field d m w) \<noteq> Panicked (PanicValue p)"
  by (simp add: output_to_def split: option.splits)

text \<open>
  Claim C8. With one of the four severity constants, \<open>Logger.output\<close> never ends in
  the panic of the default branch; with any other severity it panics with the text
  \<open>unrecognized severity\<close> and writes nothing.
\<close>

theorem output_severity_dispatch:
  "(s \<in> {sInfo, sWarning, sError, sFatal} \<longrightarrow>
      (\<forall>p. fst (Logger_output e l s d m w) \<noteq> Panicked (PanicValue p)))
   \<and> (s \<notin> {sInfo, sWarning, sError, sFatal} \<and> \<not> logLock w \<longrightarrow>
      Logger_output e l s d m w
        = (Panicked (PanicValue (fmt_Sprintln [''unrecognized severity: '', show_int s])), w))"
proof (cases "logLock w")
  case True
  then show ?thesis
    by (simp add: Logger_output_def)
next
  case False
  then show ?thesis
    by (auto simp add: Logger_output_free output_to_no_value)
qed

theorem output_severity_dispatch_witness:
  "sFatal \<in> {sInfo, sWarning, sError, sFatal}
   \<and> fst (Logger_output sample_env None sFatal 0 ''x'' start) \<noteq> Panicked (PanicValue ''y'')
   \<and> (7::int) \<notin> {sInfo, sWarning, sError, sFatal} \<and> \<not> logLock start
   \<and> Logger_output sample_env None 7 0 ''x'' start
        = (Panicked (PanicValue (''unrecognized severity:  7'' @ [newline])), start)"
proof -
  have a: "sFatal \<in> {sInfo, sWarning, sError, sFatal}" by simp
  have b: "(7::int) \<notin> {sInfo, sWarning, sError, sFatal}"
    by (simp add: sInfo_def sWarning_def sError_def sFatal_def)
  have c: "\<not> logLock start" by (simp add: start_def)
  have d: "fmt_Sprintln [''unrecognized severity: '', show_int 7] = ''unrecognized severity:  7'' @ [newline]"
    by code_simp
  from a b c d
    output_severity_dispatch [of sFatal sample_env None 0 "''x''" start]
    output_severity_dispatch [of 7 sample_env None 0 "''x''" start]
  show ?thesis by simp
qed

text \<open>
  Claim C9. While \<open>defaultLogger\<close> is nil, each of the eight severity functions ends in
  a nil-dereference panic and leaves the process state as it was: nothing is written,
  nothing is closed, and \<open>Fatal\<close> does not reach its exit.
\<close>

theorem severity_call_before_Init_panics:
  assumes "defaultLogger w = None" and "\<not> logLock w"
  shows "Info e v w = (Panicked NilDereference, w)
       \<and> Infof e f v w = (Panicked NilDereference, w)
       \<and> Warning e v w = (Panicked NilDereference, w)
       \<and> Warningf e f v w = (Panicked NilDereference, w)
       \<and> Error e v w = (Panicked NilDereference, w)
       \<and> Errorf e f v w = (Panicked NilDereference, w)
       \<and> Fatal e v w = (Panicked NilDereference, w)
       \<and> Fatalf e f v w = (Panicked NilDereference, w)"
  using assms
  by (simp add: Info_def Infof_def Warning_def Warningf_def Error_def Errorf_def Fatal_def
        Fatalf_def fatal_tail_def Logger_output_free output_to_nil severities_distinct)

theorem severity_call_before_Init_panics_witness:
  "defaultLogger start = None \<and> \<not> logLock start
   \<and> Info sample_env [''a''] start = (Panicked NilDereference, start)
   \<and> Fatalf sample_env ''%s'' [''a''] start = (Panicked NilDereference, start)"
proof -
  have a: "defaultLogger start = None" by (simp add: start_def)
  have b: "\<not> logLock start" by (simp add: start_def)
  from a b severity_call_before_Init_panics [OF a b, of sample_env "[''a'']" "''%s''"]
  show ?thesis by simp
qed

section \<open>Closing the sinks\<close>

text \<open>
  Claim C1. \<open>Init\<close> with the four sinks 3, 4, 5 and 6, then \<open>Close\<close> on the logger
  \<open>Init\<close> has built: the list \<open>closers\<close> is empty, no sink receives a \<open>Close\<close> call
  and nothing at all is issued.
\<close>

theorem Close_after_Init_closes_nothing:
  "fst (Close (defaultLogger (initialised 3 4 5 6 start)) (initialised 3 4 5 6 start)) = Returned ()
   \<and> trace (snd (Close (defaultLogger (initialised 3 4 5 6 start)) (initialised 3 4 5 6 start))) = []
   \<and> close_calls (sinks (snd (Close (defaultLogger (initialised 3 4 5 6 start))
        (initialised 3 4 5 6 start))) 3) = 0
   \<and> closers (the (defaultLogger (initialised 3 4 5 6 start))) = []"
  by (simp add: initialised_def Init_def Close_def start_def blank_sink_def)

section \<open>Opening a log file\<close>

text \<open>
  Claim C7. \<open>FileForSaving\<close> issues one \<open>os.OpenFile\<close> for the path, with the flags
  create, write-only and append and the permission bits 0666. When the file is opened
  its handle is returned; when it is not, the process exits with status 1 and nothing
  is returned.
\<close>

theorem FileForSaving_opens_or_exits:
  "(OpenFile e name (O_CREATE OR O_WRONLY OR O_APPEND) perm_0666 = Inr f \<longrightarrow>
      fst (FileForSaving e name w) = Returned f)
   \<and> (OpenFile e name (O_CREATE OR O_WRONLY OR O_APPEND) perm_0666 = Inl err \<longrightarrow>
      fst (FileForSaving e name w) = Exited 1)
   \<and> trace (snd (FileForSaving e name w)) ! length (trace w)
        = EvOpen name (O_CREATE OR O_WRONLY OR O_APPEND) perm_0666
   \<and> (O_CREATE OR O_WRONLY OR O_APPEND) AND O_CREATE = O_CREATE
   \<and> (O_CREATE OR O_WRONLY OR O_APPEND) AND O_APPEND = O_APPEND
   \<and> (O_CREATE OR O_WRONLY OR O_APPEND) AND O_ACCMODE = O_WRONLY
   \<and> perm_0666 = 438"
  by (cases "OpenFile e name (O_CREATE OR O_WRONLY OR O_APPEND) perm_0666")
     (simp_all add: FileForSaving_def Let_def log_Fatalln_def log_Output_def sink_Write_def
        nth_append O_CREATE_def O_WRONLY_def O_APPEND_def O_ACCMODE_def perm_0666_def)

theorem FileForSaving_opens_or_exits_witness:
  "OpenFile sample_env ''app.log'' (O_CREATE OR O_WRONLY OR O_APPEND) perm_0666 = Inr 7
   \<and> fst (FileForSaving sample_env ''app.log'' start) = Returned 7
   \<and> OpenFile sample_env [] (O_CREATE OR O_WRONLY OR O_APPEND) perm_0666
        = Inl ''open : no such file or directory''
   \<and> fst (FileForSaving sample_env [] start) = Exited 1"
proof -
  have a: "OpenFile sample_env ''app.log'' (O_CREATE OR O_WRONLY OR O_APPEND) perm_0666 = Inr 7"
    by (simp add: sample_env_def)
  have b: "OpenFile sample_env [] (O_CREATE OR O_WRONLY OR O_APPEND) perm_0666
             = Inl ''open : no such file or directory''"
    by (simp add: sample_env_def)
  from a b
    FileForSaving_opens_or_exits [of sample_env "''app.log''" 7 start]
    FileForSaving_opens_or_exits [of sample_env "[]" _ start "''open : no such file or directory''"]
  show ?thesis by simp
qed

section \<open>The line a severity call writes\<close>










section \<open>Fatal calls\<close>




lemma close_one_calls:
  "close_calls (sinks (close_one c w) h) = close_calls (sinks w h) + (if h = c then 1 else 0)"
  by (simp add: close_one_def sink_Close_def sink_Write_def split: option.splits)

lemma close_all_calls:
  "close_calls (sinks (close_all cs w) h) = close_calls (sinks w h) + count_list cs h"
  by (induction cs arbitrary: w) (auto simp add: close_one_calls)









section \<open>The flag \<open>initialized\<close>\<close>

lemma Logger_output_defaultLogger:
  "defaultLogger (snd (Logger_output e l s d m w)) = defaultLogger w"
proof (cases "logLock w")
  case True
  then show ?thesis by (simp add: Logger_output_def)
next
  case False
  then show ?thesis by (simp add: Logger_output_free output_to_fields)
qed

lemma Close_defaultLogger: "defaultLogger (snd (Close l w)) = defaultLogger w"
proof (cases "logLock w")
  case True
  then show ?thesis by (simp add: Close_def)
next
  case False
  then show ?thesis by (simp add: Close_free close_all_fields split: option.splits)
qed

lemma fatal_tail_defaultLogger: "defaultLogger (snd (fatal_tail rw)) = defaultLogger (snd rw)"
proof (cases rw)
  case (Pair r w1)
  show ?thesis
  proof (cases r)
    case (Returned u)
    with Pair show ?thesis
      using Close_defaultLogger [of "defaultLogger w1" w1]
      by (cases "Close (defaultLogger w1) w1")
         (auto simp add: fatal_tail_def split: outcome.splits)
  qed (simp_all add: Pair fatal_tail_def)
qed

lemma FileForSaving_defaultLogger: "defaultLogger (snd (FileForSaving e n w)) = defaultLogger w"
  by (simp add: FileForSaving_def Let_def log_Fatalln_def log_Output_fields split: sum.splits)

lemma run_call_flag_clear: "flag_clear w \<Longrightarrow> flag_clear (snd (run_call e c w))"
proof (cases c)
  case (CallInit a b c d)
  then show ?thesis by (simp add: flag_clear_def Init_def)
next
  case (CallFileForSaving n)
  assume "flag_clear w"
  with CallFileForSaving show ?thesis
    using FileForSaving_defaultLogger [of e n w]
    by (cases "FileForSaving e n w") (simp add: flag_clear_def)
qed (simp_all add: flag_clear_def Info_def Infof_def Warning_def Warningf_def Error_def
       Errorf_def Fatal_def Fatalf_def Logger_output_defaultLogger Close_defaultLogger
       fatal_tail_defaultLogger)

lemma run_calls_flag_clear: "flag_clear w \<Longrightarrow> flag_clear (snd (run_calls cs w))"
proof (induction cs arbitrary: w)
  case Nil
  then show ?case by simp
next
  case (Cons ec cs)
  obtain e c where ec: "ec = (e, c)" by (cases ec)
  obtain r w1 where rw: "run_call e c w = (r, w1)" by (cases "run_call e c w")
  have "flag_clear w1"
    using run_call_flag_clear [OF Cons.prems, of e c] rw by simp
  then show ?case
    using Cons.IH [of w1] ec rw by (cases r) simp_all
qed

lemma with_initialized_fields:
  "logLock (with_initialized b w) = logLock w"
  "sinks (with_initialized b w) = sinks w"
  "trace (with_initialized b w) = trace w"
  "defaultLogger (with_initialized b w) = map_option (\<lambda>l. l\<lparr>initialized := b\<rparr>) (defaultLogger w)"
  by (simp_all add: with_initialized_def)

lemma with_initialized_twice: "with_initialized a (with_initialized b w) = with_initialized a w"
  by (cases "defaultLogger w") (simp_all add: with_initialized_def)

lemma sink_Write_flag:
  "sink_Write h m (with_initialized b w) = with_initialized b (sink_Write h m w)"
  by (simp add: sink_Write_def with_initialized_def)

lemma close_one_flag: "close_one c (with_initialized b w) = with_initialized b (close_one c w)"
  by (simp add: close_one_def sink_Close_def sink_Write_def with_initialized_def
        split: option.splits)

lemma close_all_flag: "close_all cs (with_initialized b w) = with_initialized b (close_all cs w)"
  by (induction cs arbitrary: w) (simp_all add: close_one_flag)

lemma output_to_flag:
  assumes "\<And>g. field (g\<lparr>initialized := b\<rparr>) = field g"
  shows "output_to e (map_option (\<lambda>g. g\<lparr>initialized := b\<rparr>) l) field d m (with_initialized b w)
           = (fst (output_to e l field d m w), with_initialized b (snd (output_to e l field d m w)))"
  using assms
  by (cases l) (simp_all add: output_to_def log_Output_def sink_Write_flag split: option.splits)

lemma Logger_output_flag:
  "Logger_output e (map_option (\<lambda>g. g\<lparr>initialized := b\<rparr>) l) s d m (with_initialized b w)
     = (fst (Logger_output e l s d m w), with_initialized b (snd (Logger_output e l s d m w)))"
proof (cases "logLock w")
  case True
  then show ?thesis
    by (simp add: Logger_output_def with_initialized_fields)
next
  case False
  then have "\<not> logLock (with_initialized b w)"
    by (simp add: with_initialized_fields)
  with False show ?thesis
    by (simp add: Logger_output_free output_to_flag)
qed

lemma Close_flag:
  "Close (map_option (\<lambda>g. g\<lparr>initialized := b\<rparr>) l) (with_initialized b w)
     = (fst (Close l w), with_initialized b (snd (Close l w)))"
proof (cases "logLock w")
  case True
  then show ?thesis
    by (simp add: Close_def with_initialized_fields)
next
  case False
  then have "\<not> logLock (with_initialized b w)"
    by (simp add: with_initialized_fields)
  with False show ?thesis
    by (cases l) (simp_all add: Close_free close_all_flag)
qed

lemma Close_receiver_flag: "Close (Some (l\<lparr>initialized := b\<rparr>)) w = Close (Some l) w"
  by (simp add: Close_def)

lemma Close_world_flag:
  "Close l (with_initialized b w) = (fst (Close l w), with_initialized b (snd (Close l w)))"
proof (cases "logLock w")
  case True
  then show ?thesis
    by (simp add: Close_def with_initialized_fields)
next
  case False
  then have "\<not> logLock (with_initialized b w)"
    by (simp add: with_initialized_fields)
  with False show ?thesis
    by (cases l) (simp_all add: Close_free close_all_flag)
qed

lemma fatal_tail_flag:
  "fatal_tail (r, with_initialized b w)
     = (fst (fatal_tail (r, w)), with_initialized b (snd (fatal_tail (r, w))))"
proof (cases r)
  case (Returned u)
  show ?thesis
    using Close_flag [of b "defaultLogger w" w]
    by (cases "Close (defaultLogger w) w")
       (auto simp add: Returned fatal_tail_def with_initialized_fields split: outcome.splits)
qed (simp_all add: fatal_tail_def)

lemma FileForSaving_flag:
  "FileForSaving e n (with_initialized b w)
     = (fst (FileForSaving e n w), with_initialized b (snd (FileForSaving e n w)))"
  by (cases "OpenFile e n (O_CREATE OR O_WRONLY OR O_APPEND) perm_0666")
     (simp_all add: FileForSaving_def Let_def log_Fatalln_def log_Output_def sink_Write_def
        with_initialized_def)

lemma run_call_flag:
  "fst (run_call e c (with_initialized b w)) = fst (run_call e c w)
   \<and> with_initialized False (snd (run_call e c (with_initialized b w)))
       = with_initialized False (snd (run_call e c w))"
proof (cases c)
  case (CallInit h1 h2 h3 h4)
  then show ?thesis
    by (simp add: Init_def with_initialized_def)
next
  case (CallFileForSaving n)
  then show ?thesis
    by (cases "FileForSaving e n w") (simp add: FileForSaving_flag with_initialized_twice)
next
  case (CallClose l)
  then show ?thesis
    by (simp add: Close_world_flag with_initialized_twice)
qed (simp_all add: Info_def Infof_def Warning_def Warningf_def Error_def Errorf_def Fatal_def
       Fatalf_def with_initialized_fields Logger_output_flag fatal_tail_flag
       with_initialized_twice)

text \<open>
  Claim C10. The logger \<open>Init\<close> builds has \<open>initialized\<close> false, and no run of calls
  of the package, started with the flag false or with no logger, ever makes it true.
  No call reads the flag either: with the flag of the default logger set to any value,
  each call ends the same way and leaves the same process state but for the flag, and
  \<open>Close\<close> does the same for either value of the flag of its receiver.
\<close>

theorem initialized_never_set_nor_read:
  "flag_clear (initialised hi hw he hf w)
   \<and> (flag_clear w \<longrightarrow> flag_clear (snd (run_calls cs w)))
   \<and> fst (run_call e c (with_initialized b w)) = fst (run_call e c w)
   \<and> with_initialized False (snd (run_call e c (with_initialized b w)))
       = with_initialized False (snd (run_call e c w))
   \<and> Close (Some (l\<lparr>initialized := b\<rparr>)) w' = Close (Some l) w'"
  using run_calls_flag_clear [of w cs] run_call_flag [of e c b w] Close_receiver_flag [of b l w']
  by (simp add: initialised_def Init_def flag_clear_def)

theorem initialized_never_set_nor_read_witness:
  "flag_clear start
   \<and> flag_clear (snd (run_calls
        [(sample_env, CallInit 3 4 5 6), (sample_env, CallInfo [''a'']),
         (sample_env, CallFatal [''b''])] start))
   \<and> fst (run_call sample_env (CallInfo [''a'']) (with_initialized True (initialised 3 4 5 6 start)))
       = fst (run_call sample_env (CallInfo [''a'']) (initialised 3 4 5 6 start))"
proof -
  have a: "flag_clear start" by (simp add: flag_clear_def start_def)
  from a
    initialized_never_set_nor_read [of 3 4 5 6 start
      "[(sample_env, CallInit 3 4 5 6), (sample_env, CallInfo [''a'']),
        (sample_env, CallFatal [''b''])]"]
    initialized_never_set_nor_read [of 3 4 5 6 "initialised 3 4 5 6 start" "[]"
      sample_env "CallInfo [''a'']" True]
  show ?thesis
    by blast
qed

end
